theory Spec2Isabelle
  imports Complex_Main "HOL-Library.Sublist"
begin

section \<open>JavaScript numbers\<close>

text \<open>
  The bitrate arithmetic of the video modules is written with JavaScript numbers.
  A number is modelled as an exact real or one of the three non-finite values; the
  rounding of IEEE doubles and the sign of zero are not modelled (a zero divisor is
  taken as \<open>+0\<close>, which is what a media duration or a byte length is).  The
  operators below follow the ECMAScript rules for \<open>/\<close>, \<open>*\<close>, \<open>-\<close>,
  \<open>Math.floor\<close>, \<open>Math.max\<close> and \<open>>=\<close> on these values.
\<close>

datatype jsnum = Num real | PosInf | NegInf | NaN

fun js_divide :: "jsnum \<Rightarrow> jsnum \<Rightarrow> jsnum" where
  "js_divide NaN y = NaN"
| "js_divide x NaN = NaN"
| "js_divide (Num a) (Num b) =
     (if b \<noteq> 0 then Num (a / b)
      else if a = 0 then NaN
      else if 0 < a then PosInf else NegInf)"
| "js_divide (Num a) PosInf = Num 0"
| "js_divide (Num a) NegInf = Num 0"
| "js_divide PosInf (Num b) = (if 0 \<le> b then PosInf else NegInf)"
| "js_divide NegInf (Num b) = (if 0 \<le> b then NegInf else PosInf)"
| "js_divide PosInf PosInf = NaN"
| "js_divide PosInf NegInf = NaN"
| "js_divide NegInf PosInf = NaN"
| "js_divide NegInf NegInf = NaN"

fun js_times :: "jsnum \<Rightarrow> jsnum \<Rightarrow> jsnum" where
  "js_times NaN y = NaN"
| "js_times x NaN = NaN"
| "js_times (Num a) (Num b) = Num (a * b)"
| "js_times (Num a) PosInf = (if a = 0 then NaN else if 0 < a then PosInf else NegInf)"
| "js_times (Num a) NegInf = (if a = 0 then NaN else if 0 < a then NegInf else PosInf)"
| "js_times PosInf (Num b) = (if b = 0 then NaN else if 0 < b then PosInf else NegInf)"
| "js_times NegInf (Num b) = (if b = 0 then NaN else if 0 < b then NegInf else PosInf)"
| "js_times PosInf PosInf = PosInf"
| "js_times PosInf NegInf = NegInf"
| "js_times NegInf PosInf = NegInf"
| "js_times NegInf NegInf = PosInf"

fun js_minus :: "jsnum \<Rightarrow> jsnum \<Rightarrow> jsnum" where
  "js_minus NaN y = NaN"
| "js_minus x NaN = NaN"
| "js_minus (Num a) (Num b) = Num (a - b)"
| "js_minus (Num a) PosInf = NegInf"
| "js_minus (Num a) NegInf = PosInf"
| "js_minus PosInf (Num b) = PosInf"
| "js_minus NegInf (Num b) = NegInf"
| "js_minus PosInf PosInf = NaN"
| "js_minus PosInf NegInf = PosInf"
| "js_minus NegInf PosInf = NegInf"
| "js_minus NegInf NegInf = NaN"

fun js_floor :: "jsnum \<Rightarrow> jsnum" where
  "js_floor (Num a) = Num (of_int \<lfloor>a\<rfloor>)"
| "js_floor x = x"

fun js_max :: "jsnum \<Rightarrow> jsnum \<Rightarrow> jsnum" where
  "js_max NaN y = NaN"
| "js_max x NaN = NaN"
| "js_max PosInf y = PosInf"
| "js_max x PosInf = PosInf"
| "js_max NegInf y = y"
| "js_max x NegInf = x"
| "js_max (Num a) (Num b) = Num (max a b)"

fun js_ge :: "jsnum \<Rightarrow> jsnum \<Rightarrow> bool" where
  "js_ge NaN y = False"
| "js_ge x NaN = False"
| "js_ge PosInf y = True"
| "js_ge x NegInf = True"
| "js_ge NegInf y = False"
| "js_ge x PosInf = False"
| "js_ge (Num a) (Num b) = (b \<le> a)"

section \<open>Bitrate estimation (browser and desktop video modules)\<close>

text \<open>
  \<^verbatim>\<open>const targetTotalBitrate = (targetSizeBytes * 8) / duration / 1000; // kbps\<close>
\<close>

definition targetTotalBitrate :: "int \<Rightarrow> jsnum \<Rightarrow> jsnum" where
  "targetTotalBitrate targetSizeBytes duration =
     js_divide (js_divide (Num (real_of_int (targetSizeBytes * 8))) duration) (Num 1000)"

text \<open>
  \<^verbatim>\<open>videoBitrate = Math.max(100, Math.floor(targetTotalBitrate - audioBitrate))\<close>;
  both modules call it with the constant \<open>audioBitrate = 128\<close>.
\<close>

definition videoBitrate :: "int \<Rightarrow> jsnum \<Rightarrow> int \<Rightarrow> jsnum" where
  "videoBitrate targetSizeBytes duration audioBitrate =
     js_max (Num 100)
       (js_floor (js_minus (targetTotalBitrate targetSizeBytes duration)
                           (Num (real_of_int audioBitrate))))"

text \<open>
  The recalculation of the browser module's second pass:
  \<^verbatim>\<open>const ratio = targetSizeBytes / videoState.compressedBlob.size;\<close>
  \<^verbatim>\<open>videoBitrate = Math.max(50, Math.floor(videoBitrate * ratio * 0.9));\<close>
\<close>

definition second_pass_videoBitrate :: "jsnum \<Rightarrow> int \<Rightarrow> nat \<Rightarrow> jsnum" where
  "second_pass_videoBitrate firstBitrate targetSizeBytes blobSize =
     (let ratio = js_divide (Num (real_of_int targetSizeBytes)) (Num (real blobSize))
      in js_max (Num 50) (js_floor (js_times (js_times firstBitrate ratio) (Num 0.9))))"

section \<open>Browser video module: \<open>startVideoCompression\<close>\<close>

text \<open>
  One element of the FFmpeg argument array.  \<open>Kbps v\<close> stands for the template
  string \<^verbatim>\<open>`${v}k`\<close> and \<open>Int_arg n\<close> for \<^verbatim>\<open>n.toString()\<close>; every
  other element is a literal string.
\<close>

datatype arg = Lit string | Kbps jsnum | Int_arg int

text \<open>
  The quality presets of the browser module: preset name and CRF.  \<open>None\<close> stands
  for a key from which no preset and CRF can be read: the key is missing, or it names a
  member inherited from \<open>Object.prototype\<close>, which has neither field.  The
  destructuring, or \<open>crf.toString()\<close>, then throws a \<open>TypeError\<close>.
\<close>

definition presetMap :: "string \<Rightarrow> (string \<times> int) option" where
  "presetMap qualityPreset =
     (if qualityPreset = ''high'' then Some (''slow'', 23)
      else if qualityPreset = ''medium'' then Some (''medium'', 28)
      else if qualityPreset = ''low'' then Some (''fast'', 32)
      else None)"

text \<open>
  \<^verbatim>\<open>const dot = filename.lastIndexOf("."); return dot >= 0 ? filename.substring(dot) : "";\<close>
\<close>

definition getFileExtension :: "string \<Rightarrow> string" where
  "getFileExtension filename =
     (if CHR ''.'' \<in> set filename
      then CHR ''.'' # rev (takeWhile (\<lambda>c. c \<noteq> CHR ''.'') (rev filename))
      else '''')"

definition first_pass_args ::
  "string \<Rightarrow> string \<Rightarrow> string \<Rightarrow> string \<Rightarrow> int \<Rightarrow> jsnum \<Rightarrow> int \<Rightarrow> arg list" where
  "first_pass_args outputFormat inputName outputName preset crf bitrate audioBitrate =
     (if outputFormat = ''mp4'' then
        [Lit ''-i'', Lit inputName, Lit ''-c:v'', Lit ''libx264'',
         Lit ''-preset'', Lit preset, Lit ''-crf'', Int_arg crf,
         Lit ''-maxrate'', Kbps bitrate,
         Lit ''-bufsize'', Kbps (js_times bitrate (Num 2)),
         Lit ''-c:a'', Lit ''aac'', Lit ''-b:a'', Kbps (Num (real_of_int audioBitrate)),
         Lit ''-movflags'', Lit ''+faststart'', Lit ''-y'', Lit outputName]
      else
        [Lit ''-i'', Lit inputName, Lit ''-c:v'', Lit ''libvpx-vp9'',
         Lit ''-crf'', Int_arg crf, Lit ''-b:v'', Kbps bitrate,
         Lit ''-c:a'', Lit ''libopus'', Lit ''-b:a'', Kbps (Num (real_of_int audioBitrate)),
         Lit ''-y'', Lit outputName])"

definition second_pass_args ::
  "string \<Rightarrow> string \<Rightarrow> string \<Rightarrow> string \<Rightarrow> jsnum \<Rightarrow> int \<Rightarrow> arg list" where
  "second_pass_args outputFormat inputName outputName preset bitrate audioBitrate =
     (if outputFormat = ''mp4'' then
        [Lit ''-i'', Lit inputName, Lit ''-c:v'', Lit ''libx264'',
         Lit ''-preset'', Lit preset, Lit ''-b:v'', Kbps bitrate,
         Lit ''-maxrate'', Kbps bitrate,
         Lit ''-bufsize'', Kbps (js_times bitrate (Num 2)),
         Lit ''-c:a'', Lit ''aac'',
         Lit ''-b:a'', Kbps (Num (real_of_int (min audioBitrate 96))),
         Lit ''-movflags'', Lit ''+faststart'', Lit ''-y'', Lit outputName]
      else
        [Lit ''-i'', Lit inputName, Lit ''-c:v'', Lit ''libvpx-vp9'',
         Lit ''-b:v'', Kbps bitrate,
         Lit ''-c:a'', Lit ''libopus'',
         Lit ''-b:a'', Kbps (Num (real_of_int (min audioBitrate 96))),
         Lit ''-y'', Lit outputName])"

text \<open>The value that follows an option name in an argument array.\<close>

fun option_value :: "string \<Rightarrow> arg list \<Rightarrow> arg option" where
  "option_value name (a # b # rest) =
     (if a = Lit name then Some b else option_value name (b # rest))"
| "option_value name rest = None"

text \<open>
  The module state \<open>videoState\<close> (its field \<open>file\<close> is \<open>videoState_file\<close> here).  \<open>ffmpeg\<close> tells whether an engine instance is
  loaded (the field is \<open>null\<close> otherwise); a blob is its byte length and MIME type.
  The fields \<open>compressedFileName\<close> and \<open>startTime\<close> and the DOM updates are left out.
\<close>

record video_file =
  file_name :: string
  file_size :: nat

record blob =
  blob_size :: nat
  blob_type :: string

record videoState =
  videoState_file :: "video_file option"
  compressedBlob :: "blob option"
  ffmpeg :: bool
  isLoading :: bool
  isCompressing :: bool

text \<open>
  The settings read from the page.  The target size is either one of the fixed
  choices of the select box or the custom field, whose \<open>parseInt\<close> is \<open>None\<close>
  when it yields \<open>NaN\<close>.
\<close>

datatype target_select = Custom "int option" | Preset int

record video_settings =
  videoTargetSize :: target_select
  videoQualityPreset :: string
  videoOutputFormat :: string

text \<open>
  What the function awaits from outside.  \<open>engine_loads\<close>: the dynamic import and
  \<open>ffmpeg.load\<close> succeed.  \<open>prepare_error\<close>: the message thrown by
  \<open>readFileAsArrayBuffer\<close> or the first \<open>ffmpeg.writeFile\<close>, if any.
  \<open>duration\<close>: the value \<open>getVideoDuration\<close> resolves to (the media duration, or
  the fallback 60).  \<open>transcode args\<close>: one pass, \<open>ffmpeg.exec(args)\<close> followed by
  \<open>ffmpeg.readFile(outputName)\<close> (preceded, on the second pass, by rewriting the
  input); \<open>Inr n\<close> is the byte length read, \<open>Inl m\<close> the message thrown.
\<close>

record environment =
  engine_loads :: bool
  prepare_error :: "string option"
  duration :: jsnum
  transcode :: "arg list \<Rightarrow> string + nat"

datatype js_error = Error string | TypeError

text \<open>
  How a call ends: \<open>Ignored\<close> is the early return of the guard, \<open>Already_under\<close>
  the success toast of the size check, \<open>Compressed\<close> the result view with its success
  toast, \<open>Failed e\<close> the error toast of the \<open>catch\<close> block.
\<close>

datatype outcome = Ignored | Already_under | Compressed | Failed js_error

record run =
  outcome :: outcome
  attempts :: "arg list list"
  final :: videoState

definition loadFFmpeg :: "videoState \<Rightarrow> environment \<Rightarrow> (js_error + bool) \<times> videoState" where
  "loadFFmpeg st env =
     (if ffmpeg st then (Inr True, st)
      else if isLoading st then (Inr False, st)
      else if engine_loads env then (Inr True, st\<lparr>ffmpeg := True, isLoading := False\<rparr>)
      else (Inl (Error ''Failed to load video engine. Please use a modern browser (Chrome, Edge, or Firefox).''),
            st\<lparr>isLoading := False\<rparr>))"

definition targetSizeMB_of :: "target_select \<Rightarrow> js_error + int" where
  "targetSizeMB_of sel =
     (case sel of
        Custom None \<Rightarrow> Inl (Error ''Please enter a valid target size'')
      | Custom (Some n) \<Rightarrow>
          if n = 0 \<or> n < 1 then Inl (Error ''Please enter a valid target size'') else Inr n
      | Preset n \<Rightarrow> Inr n)"

text \<open>The two passes, from \<open>Calculate target bitrate\<close> to the end of the second pass.\<close>

definition transcode_passes ::
  "videoState \<Rightarrow> video_file \<Rightarrow> video_settings \<Rightarrow> environment \<Rightarrow> int
     \<Rightarrow> outcome \<times> arg list list \<times> videoState" where
  "transcode_passes st f ui env targetSizeMB =
     (let outputFormat = videoOutputFormat ui;
          inputName = ''input'' @ getFileExtension (file_name f);
          outputName = ''output.'' @ outputFormat;
          targetSizeBytes = targetSizeMB * 1024 * 1024;
          audioBitrate = 128;
          bitrate = videoBitrate targetSizeBytes (duration env) audioBitrate
      in case presetMap (videoQualityPreset ui) of
           None \<Rightarrow> (Failed TypeError, [], st)
         | Some (preset, crf) \<Rightarrow>
             (let args = first_pass_args outputFormat inputName outputName preset crf
                           bitrate audioBitrate
              in case transcode env args of
                   Inl m \<Rightarrow> (Failed (Error m), [args], st)
                 | Inr n \<Rightarrow>
                     (let mimeType = (if outputFormat = ''mp4'' then ''video/mp4''
                                      else ''video/webm'');
                          st2 = st\<lparr>compressedBlob :=
                                     Some \<lparr>blob_size = n, blob_type = mimeType\<rparr>\<rparr>
                      in if real n > real_of_int targetSizeBytes * 1.05 then
                           (let bitrate2 = second_pass_videoBitrate bitrate targetSizeBytes n;
                                args2 = second_pass_args outputFormat inputName outputName
                                          preset bitrate2 audioBitrate
                            in case transcode env args2 of
                                 Inl m \<Rightarrow> (Failed (Error m), [args, args2], st2)
                               | Inr n2 \<Rightarrow>
                                   (Compressed, [args, args2],
                                    st2\<lparr>compressedBlob :=
                                          Some \<lparr>blob_size = n2, blob_type = mimeType\<rparr>\<rparr>))
                         else (Compressed, [args], st2))))"

text \<open>The body of the \<open>try\<close> block.\<close>

definition try_body ::
  "videoState \<Rightarrow> video_file \<Rightarrow> video_settings \<Rightarrow> environment
     \<Rightarrow> outcome \<times> arg list list \<times> videoState" where
  "try_body st f ui env =
     (case loadFFmpeg st env of
        (Inl e, st1) \<Rightarrow> (Failed e, [], st1)
      | (Inr loaded, st1) \<Rightarrow>
          if \<not> loaded then (Failed (Error ''FFmpeg not available''), [], st1)
          else
            (case targetSizeMB_of (videoTargetSize ui) of
               Inl e \<Rightarrow> (Failed e, [], st1)
             | Inr targetSizeMB \<Rightarrow>
                 if real (file_size f) / (1024 * 1024) \<le> real_of_int targetSizeMB
                 then (Already_under, [], st1)
                 else
                   (case prepare_error env of
                      Some m \<Rightarrow> (Failed (Error m), [], st1)
                    | None \<Rightarrow> transcode_passes st1 f ui env targetSizeMB)))"

definition startVideoCompression :: "videoState \<Rightarrow> video_settings \<Rightarrow> environment \<Rightarrow> run" where
  "startVideoCompression st ui env =
     (case videoState_file st of
        None \<Rightarrow> \<lparr>outcome = Ignored, attempts = [], final = st\<rparr>
      | Some f \<Rightarrow>
          if isCompressing st then \<lparr>outcome = Ignored, attempts = [], final = st\<rparr>
          else
            (case try_body (st\<lparr>isCompressing := True\<rparr>) f ui env of
               (res, calls, st') \<Rightarrow>
                 \<lparr>outcome = res, attempts = calls, final = st'\<lparr>isCompressing := False\<rparr>\<rparr>))"

section \<open>Desktop renderer: \<open>compressVideo\<close>\<close>

text \<open>
  The renderer's \<open>state\<close>: the chosen file \<open>{path, name, size}\<close>, the output path
  and the busy flag (\<open>state.isCompressing\<close>); the image fields are left out.
\<close>

record desktop_file = video_file +
  file_path :: string

record renderer_state =
  videoFile :: "desktop_file option"
  videoOutputPath :: "string option"
  renderer_isCompressing :: bool

text \<open>What the main process resolves a \<open>compress-video\<close> request with.\<close>

datatype video_reply =
    Reply_success string nat nat
  | Reply_cancelled
  | Reply_error string

text \<open>
  \<open>savePath\<close> is what the save dialog returns (\<open>None\<close> when dismissed) and
  \<open>compress_reply\<close> what the main process answers to the request, given as
  \<open>(filePath, savePath, targetSizeMB, quality, outputFormat)\<close>.
\<close>

type_synonym video_request = "string \<times> string \<times> int \<times> string \<times> string"

record renderer_env =
  savePath :: "string option"
  compress_reply :: "video_request \<Rightarrow> video_reply"

datatype renderer_outcome =
    R_ignored | R_invalid_size | R_already_under | R_no_save_path | R_shown video_reply

record renderer_run =
  r_outcome :: renderer_outcome
  requests :: "video_request list"
  r_final :: renderer_state

definition compressVideo :: "renderer_state \<Rightarrow> video_settings \<Rightarrow> renderer_env \<Rightarrow> renderer_run" where
  "compressVideo st ui env =
     (case videoFile st of
        None \<Rightarrow> \<lparr>r_outcome = R_ignored, requests = [], r_final = st\<rparr>
      | Some f \<Rightarrow>
          if renderer_isCompressing st
          then \<lparr>r_outcome = R_ignored, requests = [], r_final = st\<rparr>
          else
            (case targetSizeMB_of (videoTargetSize ui) of
               Inl e \<Rightarrow> \<lparr>r_outcome = R_invalid_size, requests = [], r_final = st\<rparr>
             | Inr targetSizeMB \<Rightarrow>
                 if real (file_size f) / (1024 * 1024) \<le> real_of_int targetSizeMB
                 then \<lparr>r_outcome = R_already_under, requests = [], r_final = st\<rparr>
                 else
                   (case savePath env of
                      None \<Rightarrow> \<lparr>r_outcome = R_no_save_path, requests = [], r_final = st\<rparr>
                    | Some p \<Rightarrow>
                        (let req = (file_path f, p, targetSizeMB, videoQualityPreset ui,
                                    videoOutputFormat ui)
                         in \<lparr>r_outcome = R_shown (compress_reply env req),
                             requests = [req],
                             r_final = st\<lparr>videoOutputPath := Some p,
                                          renderer_isCompressing := False\<rparr>\<rparr>))))"

section \<open>Desktop main process: the \<open>compress-video\<close> and \<open>cancel-video\<close> handlers\<close>

text \<open>
  The \<open>error\<close> handler of a command (the same in the mp4 and the webm branch):
  \<^verbatim>\<open>if (err.message.includes("SIGKILL") || err.message.includes("killed"))\<close>
  \<^verbatim>\<open>  resolve({ success: false, cancelled: true });\<close>
  \<^verbatim>\<open>else resolve({ success: false, error: err.message });\<close>
\<close>

definition error_reply :: "string \<Rightarrow> video_reply" where
  "error_reply message =
     (if sublist ''SIGKILL'' message \<or> sublist ''killed'' message
      then Reply_cancelled else Reply_error message)"







section \<open>Image compression service\<close>

text \<open>
  A property read from an object literal is the literal's own value, or, for a name
  that \<open>Object.prototype\<close> defines, the inherited member, or \<open>undefined\<close>.
  \<open>Str s\<close> is a string value and \<open>Inherited k\<close> the member of
  \<open>Object.prototype\<close> named \<open>k\<close> (a function or an object, hence truthy and equal
  to no string).
\<close>

datatype js_value = Str string | Inherited string





text \<open>The option objects handed to the encoder, one constructor per shape.\<close>

datatype sharp_options =
    Jpeg_options (quality: int) (mozjpeg: bool) (chromaSubsampling: string)
  | Png_options (compressionLevel: int) (palette: bool) (quality: int) (effort: int)
      (colors: int)
  | Webp_options (quality: int) (effort: int) (smartSubsample: bool) (nearLossless: bool)
  | Gif_options (colors: int) (effort: int)
  | Default_options (quality: int)

text \<open>
  \<^verbatim>\<open>Math.max(16, Math.floor(256 * (quality / 100)))\<close>, the palette size of the
  \<open>png\<close> and \<open>gif\<close> cases.
\<close>

definition palette_colors :: "int \<Rightarrow> int" where
  "palette_colors q = max 16 \<lfloor>256 * (real_of_int q / 100)\<rfloor>"

definition getCompressionOptions :: "js_value \<Rightarrow> int \<Rightarrow> sharp_options" where
  "getCompressionOptions format q =
     (if format = Str ''jpeg'' then
        Jpeg_options q True (if q > 90 then ''4:4:4'' else ''4:2:0'')
      else if format = Str ''png'' then
        Png_options 9 (q < 100) q 10 (palette_colors q)
      else if format = Str ''webp'' then
        Webp_options q 6 True (q > 95)
      else if format = Str ''gif'' then
        Gif_options (palette_colors q) 10
      else Default_options q)"



section \<open>Example inputs\<close>

text \<open>
  A 50 MB file \<open>clip.mov\<close> with the engine loaded, a 16 MB target at the medium
  preset, and an environment with a duration of 120 seconds whose first pass yields
  \<open>firstSize\<close> bytes and whose second pass yields 15 MB.  They instantiate the
  theorems below.
\<close>

abbreviation example_state :: videoState where
  "example_state \<equiv>
     \<lparr>videoState_file = Some \<lparr>file_name = ''clip.mov'', file_size = 52428800\<rparr>,
      compressedBlob = None, ffmpeg = True, isLoading = False, isCompressing = False\<rparr>"

abbreviation example_settings :: "string \<Rightarrow> video_settings" where
  "example_settings fmt \<equiv>
     \<lparr>videoTargetSize = Preset 16, videoQualityPreset = ''medium'', videoOutputFormat = fmt\<rparr>"

abbreviation example_environment :: "nat \<Rightarrow> environment" where
  "example_environment firstSize \<equiv>
     \<lparr>engine_loads = True, prepare_error = None, duration = Num 120,
      transcode = (\<lambda>args. if option_value ''-crf'' args = None
                            then Inr 15728640 else Inr firstSize)\<rparr>"

section \<open>Properties\<close>

subsection \<open>Auxiliary facts\<close>

lemma first_pass_audio:
  "presetMap q = Some (preset, crf) \<Longrightarrow>
   option_value ''-b:a'' (first_pass_args fmt (''input'' @ e) (''output.'' @ fmt) preset crf b a)
     = Some (Kbps (Num (real_of_int a)))"
  by (auto simp: first_pass_args_def presetMap_def split: if_splits)

lemma second_pass_audio:
  "presetMap q = Some (preset, crf) \<Longrightarrow>
   option_value ''-b:a'' (second_pass_args fmt (''input'' @ e) (''output.'' @ fmt) preset b a)
     = Some (Kbps (Num (real_of_int (min a 96))))"
  by (auto simp: second_pass_args_def presetMap_def split: if_splits)



lemma attempts_two:
  assumes "attempts (startVideoCompression st ui env) = [a1, a2]"
  shows "\<exists>(f::video_file) mb preset crf n.
           videoState_file st = Some f \<and>
           targetSizeMB_of (videoTargetSize ui) = Inr mb \<and>
           presetMap (videoQualityPreset ui) = Some (preset, crf) \<and>
           a1 = first_pass_args (videoOutputFormat ui) (''input'' @ getFileExtension (file_name f))
                  (''output.'' @ videoOutputFormat ui) preset crf
                  (videoBitrate (mb * 1024 * 1024) (duration env) 128) 128 \<and>
           transcode env a1 = Inr n \<and>
           real n > real_of_int (mb * 1024 * 1024) * 1.05 \<and>
           a2 = second_pass_args (videoOutputFormat ui) (''input'' @ getFileExtension (file_name f))
                  (''output.'' @ videoOutputFormat ui) preset
                  (second_pass_videoBitrate (videoBitrate (mb * 1024 * 1024) (duration env) 128)
                     (mb * 1024 * 1024) n) 128"
  using assms
  by (auto simp: startVideoCompression_def try_body_def transcode_passes_def Let_def
      split: option.splits sum.splits prod.splits if_splits)

lemma videoBitrate_finite:
  "d \<noteq> 0 \<Longrightarrow> videoBitrate t (Num d) a =
     Num (of_int (max 100 \<lfloor>real_of_int (t * 8) / d / 1000 - real_of_int a\<rfloor>))"
  by (simp add: videoBitrate_def targetTotalBitrate_def max_def)


lemma example_run_mp4:
  "attempts (startVideoCompression example_state (example_settings ''mp4'')
      (example_environment 20971520)) =
     [[Lit ''-i'', Lit ''input.mov'', Lit ''-c:v'', Lit ''libx264'',
       Lit ''-preset'', Lit ''medium'', Lit ''-crf'', Int_arg 28,
       Lit ''-maxrate'', Kbps (Num 990), Lit ''-bufsize'', Kbps (Num 1980),
       Lit ''-c:a'', Lit ''aac'', Lit ''-b:a'', Kbps (Num 128),
       Lit ''-movflags'', Lit ''+faststart'', Lit ''-y'', Lit ''output.mp4''],
      [Lit ''-i'', Lit ''input.mov'', Lit ''-c:v'', Lit ''libx264'',
       Lit ''-preset'', Lit ''medium'', Lit ''-b:v'', Kbps (Num 712),
       Lit ''-maxrate'', Kbps (Num 712), Lit ''-bufsize'', Kbps (Num 1424),
       Lit ''-c:a'', Lit ''aac'', Lit ''-b:a'', Kbps (Num 96),
       Lit ''-movflags'', Lit ''+faststart'', Lit ''-y'', Lit ''output.mp4'']]"
  by (simp add: startVideoCompression_def try_body_def transcode_passes_def Let_def
        loadFFmpeg_def targetSizeMB_of_def presetMap_def getFileExtension_def
        first_pass_args_def second_pass_args_def videoBitrate_def targetTotalBitrate_def
        second_pass_videoBitrate_def)

lemma example_run_webm:
  "attempts (startVideoCompression example_state (example_settings ''webm'')
      (example_environment 20971520)) =
     [[Lit ''-i'', Lit ''input.mov'', Lit ''-c:v'', Lit ''libvpx-vp9'',
       Lit ''-crf'', Int_arg 28, Lit ''-b:v'', Kbps (Num 990),
       Lit ''-c:a'', Lit ''libopus'', Lit ''-b:a'', Kbps (Num 128),
       Lit ''-y'', Lit ''output.webm''],
      [Lit ''-i'', Lit ''input.mov'', Lit ''-c:v'', Lit ''libvpx-vp9'',
       Lit ''-b:v'', Kbps (Num 712),
       Lit ''-c:a'', Lit ''libopus'', Lit ''-b:a'', Kbps (Num 96),
       Lit ''-y'', Lit ''output.webm'']]"
  by (simp add: startVideoCompression_def try_body_def transcode_passes_def Let_def
        loadFFmpeg_def targetSizeMB_of_def presetMap_def getFileExtension_def
        first_pass_args_def second_pass_args_def videoBitrate_def targetTotalBitrate_def
        second_pass_videoBitrate_def)


lemma size_check:
  "(real n / (1024 * 1024) \<le> real_of_int mb) = (int n \<le> mb * 1024 * 1024)"
proof -
  have a: "(real n / (1024 * 1024) \<le> real_of_int mb)
      = (real n \<le> real_of_int mb * (1024 * 1024))"
    by (rule pos_divide_le_eq) simp
  have b: "(real n \<le> real_of_int mb * (1024 * 1024))
      = (real_of_int (int n) \<le> real_of_int (mb * 1024 * 1024))"
    by (simp add: mult.commute)
  have c: "(real_of_int (int n) \<le> real_of_int (mb * 1024 * 1024)) = (int n \<le> mb * 1024 * 1024)"
    by (rule of_int_le_iff)
  show ?thesis by (simp only: a b c)
qed

subsection \<open>At most two attempts\<close>



subsection \<open>Bitrate of the second pass\<close>



subsection \<open>Floor and monotonicity of the first-pass estimate\<close>

text \<open>
  C3: for a positive duration \<open>d\<close>, a positive target size \<open>t\<close> and an audio budget
  \<open>a \<ge> 0\<close> the first-pass estimate is \<open>max(100, floor(t * 8 / d / 1000 - a))\<close>, it is
  at least 100, and it does not increase when the audio budget grows.
\<close>

theorem videoBitrate_floor_antitone:
  assumes "0 < d" and "0 < t" and "0 \<le> a"
  shows "videoBitrate t (Num d) a =
           Num (of_int (max 100 \<lfloor>real_of_int t * 8 / d / 1000 - real_of_int a\<rfloor>))
     \<and> js_ge (videoBitrate t (Num d) a) (Num 100)
     \<and> (\<forall>a'. a \<le> a' \<longrightarrow> js_ge (videoBitrate t (Num d) a) (videoBitrate t (Num d) a'))"
proof -
  let ?x = "real_of_int (t * 8) / d / 1000"
  have eq: "videoBitrate t (Num d) b = Num (of_int (max 100 \<lfloor>?x - real_of_int b\<rfloor>))" for b
    using assms(1) by (simp only: videoBitrate_finite)
  have mono: "max 100 \<lfloor>?x - real_of_int a'\<rfloor> \<le> max 100 \<lfloor>?x - real_of_int a\<rfloor>"
    if "a \<le> a'" for a'
    using that by (intro max.mono floor_mono) simp_all
  show ?thesis
    using mono by (simp only: eq js_ge.simps of_int_le_iff of_int_mult of_int_numeral) simp
qed

theorem videoBitrate_floor_antitone_witness:
  "(0::real) < 120 \<and> (0::int) < 16777216 \<and> (0::int) \<le> 128
   \<and> videoBitrate 16777216 (Num 120) 128 = Num 990
   \<and> js_ge (videoBitrate 16777216 (Num 120) 128) (Num 100)
   \<and> js_ge (videoBitrate 16777216 (Num 120) 128) (videoBitrate 16777216 (Num 120) 256)"
proof -
  have prem: "(0::real) < 120" "(0::int) < 16777216" "(0::int) \<le> 128" by simp_all
  note w = videoBitrate_floor_antitone [OF prem]
  from w have floor: "js_ge (videoBitrate 16777216 (Num 120) 128) (Num 100)" by blast
  from w have "(128::int) \<le> 256 \<longrightarrow>
      js_ge (videoBitrate 16777216 (Num 120) 128) (videoBitrate 16777216 (Num 120) 256)"
    by blast
  then have anti:
    "js_ge (videoBitrate 16777216 (Num 120) 128) (videoBitrate 16777216 (Num 120) 256)"
    by simp
  from w have "videoBitrate 16777216 (Num 120) 128 = Num 990" by simp
  with floor anti prem show ?thesis by blast
qed

subsection \<open>Scenario A\<close>

text \<open>
  C4 (as amended): for a duration of 120 seconds, a target of 16 MB and an audio budget
  of 128 kbps, the first-pass video bitrate is 990 kbps.
\<close>

theorem videoBitrate_scenario_A:
  "videoBitrate (16 * 1024 * 1024) (Num 120) 128 = Num 990"
  by (simp add: videoBitrate_def targetTotalBitrate_def)

text \<open>
  C4 as stated gives 964 kbps for this input; the code does not compute that value.
\<close>

theorem scenario_A_bitrate_is_not_964:
  "videoBitrate (16 * 1024 * 1024) (Num 120) 128 \<noteq> Num 964"
  by (simp add: videoBitrate_def targetTotalBitrate_def)

subsection \<open>Size check before compression\<close>

text \<open>
  C5 as stated: in the desktop renderer a 10 MB file against a 16 MB target ends with
  the success toast and no request to the main process, but there is no output: the
  output path stays unset.  In the browser module the size check comes after the engine
  is loaded, so the same file ends with the error toast when the engine cannot be
  loaded; with the engine loaded it ends with no compressed blob stored.
\<close>

theorem already_under_yields_no_output:
  "compressVideo
     \<lparr>videoFile = Some \<lparr>file_name = ''clip.mov'', file_size = 10485760,
                           file_path = ''/videos/clip.mov''\<rparr>,
      videoOutputPath = None, renderer_isCompressing = False\<rparr>
     (example_settings ''mp4'')
     \<lparr>savePath = Some ''/videos/clip-small.mp4'', compress_reply = (\<lambda>req. Reply_cancelled)\<rparr>
   = \<lparr>r_outcome = R_already_under, requests = [],
      r_final = \<lparr>videoFile = Some \<lparr>file_name = ''clip.mov'', file_size = 10485760,
                                     file_path = ''/videos/clip.mov''\<rparr>,
                 videoOutputPath = None, renderer_isCompressing = False\<rparr>\<rparr>
   \<and> outcome (startVideoCompression
        \<lparr>videoState_file = Some \<lparr>file_name = ''clip.mov'', file_size = 10485760\<rparr>,
         compressedBlob = None, ffmpeg = False, isLoading = False, isCompressing = False\<rparr>
        (example_settings ''mp4'')
        \<lparr>engine_loads = False, prepare_error = None, duration = Num 120,
         transcode = (\<lambda>args. Inr 15728640)\<rparr>)
     = Failed (Error ''Failed to load video engine. Please use a modern browser (Chrome, Edge, or Firefox).'')
   \<and> compressedBlob (final (startVideoCompression
        \<lparr>videoState_file = Some \<lparr>file_name = ''clip.mov'', file_size = 10485760\<rparr>,
         compressedBlob = None, ffmpeg = True, isLoading = False, isCompressing = False\<rparr>
        (example_settings ''mp4'') (example_environment 20971520))) = None"
  by (simp add: compressVideo_def targetSizeMB_of_def startVideoCompression_def
        try_body_def loadFFmpeg_def)

text \<open>
  C5 (as amended): when the source size is at most the target size in bytes (and the
  target size setting is valid), the desktop renderer's \<open>compressVideo\<close> ends with
  the success toast, sends no request to the main process and leaves its state as it
  was; the browser module's \<open>startVideoCompression\<close>, once its engine is loaded or
  loads, ends with the success toast and no transcoding attempt, and leaves the file
  and the stored compressed blob as they were.  No output is produced.
\<close>

theorem precheck_short_circuit:
  assumes "targetSizeMB_of (videoTargetSize ui) = Inr mb"
  shows "(videoFile rst = Some df \<and> \<not> renderer_isCompressing rst
            \<and> int (file_size df) \<le> mb * 1024 * 1024
          \<longrightarrow> compressVideo rst ui renv
                = \<lparr>r_outcome = R_already_under, requests = [], r_final = rst\<rparr>)
       \<and> (videoState_file st = Some f \<and> \<not> isCompressing st
            \<and> (ffmpeg st \<or> \<not> isLoading st \<and> engine_loads env)
            \<and> int (file_size f) \<le> mb * 1024 * 1024
          \<longrightarrow> outcome (startVideoCompression st ui env) = Already_under
              \<and> attempts (startVideoCompression st ui env) = []
              \<and> compressedBlob (final (startVideoCompression st ui env)) = compressedBlob st
              \<and> videoState_file (final (startVideoCompression st ui env)) = videoState_file st)"
  using assms
  by (auto simp: compressVideo_def startVideoCompression_def try_body_def loadFFmpeg_def
        size_check)

theorem precheck_short_circuit_witness:
  "targetSizeMB_of (videoTargetSize (example_settings ''mp4'')) = Inr 16
   \<and> int (10485760::nat) \<le> 16 * 1024 * 1024
   \<and> compressVideo
       \<lparr>videoFile = Some \<lparr>file_name = ''clip.mov'', file_size = 10485760,
                             file_path = ''/videos/clip.mov''\<rparr>,
        videoOutputPath = None, renderer_isCompressing = False\<rparr>
       (example_settings ''mp4'')
       \<lparr>savePath = None, compress_reply = (\<lambda>req. Reply_cancelled)\<rparr>
     = \<lparr>r_outcome = R_already_under, requests = [],
        r_final = \<lparr>videoFile = Some \<lparr>file_name = ''clip.mov'', file_size = 10485760,
                                     file_path = ''/videos/clip.mov''\<rparr>,
                   videoOutputPath = None, renderer_isCompressing = False\<rparr>\<rparr>
   \<and> outcome (startVideoCompression
        \<lparr>videoState_file = Some \<lparr>file_name = ''clip.mov'', file_size = 10485760\<rparr>,
         compressedBlob = None, ffmpeg = True, isLoading = False, isCompressing = False\<rparr>
        (example_settings ''mp4'') (example_environment 20971520)) = Already_under
   \<and> attempts (startVideoCompression
        \<lparr>videoState_file = Some \<lparr>file_name = ''clip.mov'', file_size = 10485760\<rparr>,
         compressedBlob = None, ffmpeg = True, isLoading = False, isCompressing = False\<rparr>
        (example_settings ''mp4'') (example_environment 20971520)) = []"
proof -
  have t: "targetSizeMB_of (videoTargetSize (example_settings ''mp4'')) = Inr 16"
    by (simp add: targetSizeMB_of_def)
  note w = precheck_short_circuit [OF t,
      of "\<lparr>videoFile = Some \<lparr>file_name = ''clip.mov'', file_size = 10485760,
                             file_path = ''/videos/clip.mov''\<rparr>,
        videoOutputPath = None, renderer_isCompressing = False\<rparr>"
      "\<lparr>file_name = ''clip.mov'', file_size = 10485760, file_path = ''/videos/clip.mov''\<rparr>"
      "\<lparr>savePath = None, compress_reply = (\<lambda>req. Reply_cancelled)\<rparr>"
      "\<lparr>videoState_file = Some \<lparr>file_name = ''clip.mov'', file_size = 10485760\<rparr>,
         compressedBlob = None, ffmpeg = True, isLoading = False, isCompressing = False\<rparr>"
      "\<lparr>file_name = ''clip.mov'', file_size = 10485760\<rparr>"
      "example_environment 20971520"]
  show ?thesis using t w by simp
qed

subsection \<open>Formats and tiers outside the supported set\<close>




subsection \<open>Palette size\<close>

text \<open>
  C7: for a quality between 1 and 100 and the format png or gif the palette size is
  \<open>max(16, floor(256 * q / 100))\<close>; it does not decrease when the quality grows, and
  for quality 50 and png it is 128.
\<close>

theorem palette_size:
  assumes "1 \<le> q" and "q \<le> 100" and "fmt = ''png'' \<or> fmt = ''gif''"
  shows "colors (getCompressionOptions (Str fmt) q) = max 16 \<lfloor>256 * real_of_int q / 100\<rfloor>
       \<and> (\<forall>q'. q \<le> q' \<and> q' \<le> 100 \<longrightarrow>
            colors (getCompressionOptions (Str fmt) q) \<le> colors (getCompressionOptions (Str fmt) q'))
       \<and> colors (getCompressionOptions (Str ''png'') 50) = 128"
proof -
  have c: "colors (getCompressionOptions (Str fmt) k) = palette_colors k" for k
    using assms(3) by (auto simp: getCompressionOptions_def)
  have mono: "palette_colors q \<le> palette_colors q'" if "q \<le> q'" for q'
    unfolding palette_colors_def using that by (intro max.mono floor_mono) simp_all
  have fifty: "colors (getCompressionOptions (Str ''png'') 50) = 128"
    by (simp add: getCompressionOptions_def palette_colors_def)
  show ?thesis
    using mono fifty by (simp add: c) (simp add: palette_colors_def)
qed

theorem palette_size_witness:
  "(1::int) \<le> 50 \<and> (50::int) \<le> 100
   \<and> colors (getCompressionOptions (Str ''gif'') 50) = 128
   \<and> colors (getCompressionOptions (Str ''gif'') 50) \<le> colors (getCompressionOptions (Str ''gif'') 80)"
proof -
  have prem: "(1::int) \<le> 50" "(50::int) \<le> 100" "''gif'' = ''png'' \<or> ''gif'' = ''gif''"
    by simp_all
  note w = palette_size [OF prem]
  from w have "(50::int) \<le> 80 \<and> (80::int) \<le> 100 \<longrightarrow>
      colors (getCompressionOptions (Str ''gif'') 50)
        \<le> colors (getCompressionOptions (Str ''gif'') 80)"
    by blast
  then have mono: "colors (getCompressionOptions (Str ''gif'') 50)
        \<le> colors (getCompressionOptions (Str ''gif'') 80)"
    by simp
  from w have "colors (getCompressionOptions (Str ''gif'') 50) = 128" by simp
  with mono prem show ?thesis by blast
qed

subsection \<open>Cancelled and failed commands\<close>

text \<open>
  C8: an exit with a non-zero code whose message happens to contain the word
  \<open>killed\<close> (here through the name of the output file) is reported as cancelled,
  not as failed with that message.
\<close>

theorem error_reply_exit_code_with_killed_in_path:
  "error_reply ''ffmpeg exited with code 1: /home/user/killed.mp4: Permission denied''
     = Reply_cancelled"
  unfolding error_reply_def by code_simp

subsection \<open>Cancel after the end of a command\<close>




subsection \<open>Audio bitrate of the second pass\<close>

text \<open>
  C10: whenever a second pass is made, its audio bitrate is \<open>min(128, 96) = 96\<close> kbps,
  where the first pass used 128 kbps; this holds for every output format, so for the
  mp4 and the webm branch.
\<close>

theorem second_pass_audio_bitrate:
  assumes "attempts (startVideoCompression st ui env) = [a1, a2]"
  shows "option_value ''-b:a'' a1 = Some (Kbps (Num 128))
       \<and> option_value ''-b:a'' a2 = Some (Kbps (Num 96))"
proof -
  from attempts_two [OF assms] obtain f :: video_file and mb preset crf n where
    p: "presetMap (videoQualityPreset ui) = Some (preset, crf)" and
    a1: "a1 = first_pass_args (videoOutputFormat ui) (''input'' @ getFileExtension (file_name f))
                  (''output.'' @ videoOutputFormat ui) preset crf
                  (videoBitrate (mb * 1024 * 1024) (duration env) 128) 128" and
    a2: "a2 = second_pass_args (videoOutputFormat ui) (''input'' @ getFileExtension (file_name f))
                  (''output.'' @ videoOutputFormat ui) preset
                  (second_pass_videoBitrate (videoBitrate (mb * 1024 * 1024) (duration env) 128)
                     (mb * 1024 * 1024) n) 128"
    by blast
  show ?thesis
    unfolding a1 a2 using first_pass_audio [OF p] second_pass_audio [OF p] by simp
qed

theorem second_pass_audio_bitrate_witness:
  "option_value ''-b:a''
     (attempts (startVideoCompression example_state (example_settings ''webm'')
        (example_environment 20971520)) ! 1) = Some (Kbps (Num 96))
   \<and> option_value ''-b:a''
     (attempts (startVideoCompression example_state (example_settings ''mp4'')
        (example_environment 20971520)) ! 1) = Some (Kbps (Num 96))"
  using second_pass_audio_bitrate [OF example_run_webm] second_pass_audio_bitrate [OF example_run_mp4]
  by (simp only: example_run_webm example_run_mp4 nth_Cons_Suc nth_Cons_0 One_nat_def) 

end
